theory Spec2Isabelle
  imports Complex_Main
begin

section \<open>Weather API (wapp.py): a cache-aside lookup in front of OpenWeather\<close>

text \<open>
  The module \<^verbatim>\<open>src/Weather API/wapp.py\<close> has two functions of interest: the
  \<^verbatim>\<open>/weather\<close> route, which validates and normalises the \<^verbatim>\<open>city\<close> query
  parameter, and \<^verbatim>\<open>fetch_weather\<close>, which asks Redis first and OpenWeather on a miss.
  Both talk to the outside world (Redis, HTTP). The embedding makes that world explicit:
  an environment \<open>env\<close> holds the configuration and the behaviour of the collaborators,
  a \<open>world\<close> holds the contents of the Redis server and the trace of every external call
  made so far, and each function takes the current instant \<open>now\<close> (in seconds) and returns
  its Python result together with the new world. A raised exception is \<open>Inl\<close>.
  The \<^verbatim>\<open>print\<close> calls write to standard output only and are left out.

  Strings are lists of code points below 256; \<^verbatim>\<open>str.lower\<close> and \<^verbatim>\<open>str.strip\<close>
  are modelled on that range as Python defines them.
\<close>

subsection \<open>Python values\<close>

text \<open>
  The values \<^verbatim>\<open>response.json()\<close> and \<^verbatim>\<open>json.loads\<close> produce. \<open>JNull\<close> is Python's
  \<^verbatim>\<open>None\<close>. A JSON number is kept as a rational: the code never computes with it.
\<close>

datatype json =
    JNull
  | JBool bool
  | JNum rat
  | JStr string
  | JArr "json list"
  | JObj "(string \<times> json) list"

datatype py_error =
    RedisConnectionError
  | RedisResponseError
  | RequestException
  | JSONDecodeError
  | KeyError string
  | TypeError
  | AttributeError

definition bind_err :: "py_error + 'a \<Rightarrow> ('a \<Rightarrow> py_error + 'b) \<Rightarrow> py_error + 'b" where
  "bind_err r f = (case r of Inl e \<Rightarrow> Inl e | Inr x \<Rightarrow> f x)"

text \<open>\<^verbatim>\<open>body.get(k)\<close>: \<^verbatim>\<open>None\<close> for a missing key; only a dict has the method.\<close>

fun py_get :: "json \<Rightarrow> string \<Rightarrow> py_error + json" where
  "py_get (JObj kvs) k = Inr (case map_of kvs k of None \<Rightarrow> JNull | Some v \<Rightarrow> v)"
| "py_get _ k = Inl AttributeError"

text \<open>
  \<^verbatim>\<open>body[k]\<close> with a string key: \<^verbatim>\<open>KeyError\<close> for a key the dict lacks,
  \<^verbatim>\<open>TypeError\<close> on a list, a string, a number, a boolean or \<^verbatim>\<open>None\<close>.
\<close>

fun py_index :: "json \<Rightarrow> string \<Rightarrow> py_error + json" where
  "py_index (JObj kvs) k = (case map_of kvs k of None \<Rightarrow> Inl (KeyError k) | Some v \<Rightarrow> Inr v)"
| "py_index _ k = Inl TypeError"

subsection \<open>Strings: split, strip, lower\<close>

definition comma :: char where
  "comma = CHR '',''"

text \<open>\<^verbatim>\<open>info.split(",", 1)\<close>: at most one split, at the first comma.\<close>

definition split_comma :: "string \<Rightarrow> string list" where
  "split_comma s =
     (if comma \<in> set s
      then [takeWhile (\<lambda>c. c \<noteq> comma) s, tl (dropWhile (\<lambda>c. c \<noteq> comma) s)]
      else [s])"

text \<open>
  \<^verbatim>\<open>str.isspace\<close> on one code point below 256: tab to carriage return (9-13), the
  separators 28-31, the space, NEL (133) and the no-break space (160).
\<close>

definition is_space :: "char \<Rightarrow> bool" where
  "is_space c =
     (let n = (of_char c :: nat)
      in (9 \<le> n \<and> n \<le> 13) \<or> (28 \<le> n \<and> n \<le> 32) \<or> n = 133 \<or> n = 160)"

definition strip :: "string \<Rightarrow> string" where
  "strip s = rev (dropWhile is_space (rev (dropWhile is_space s)))"

text \<open>
  \<^verbatim>\<open>str.lower\<close> on one code point below 256: A-Z and the Latin-1 capitals 192-222
  (but not the multiplication sign 215) move up by 32.
\<close>

definition lower_char :: "char \<Rightarrow> char" where
  "lower_char c =
     (let n = (of_char c :: nat)
      in if (65 \<le> n \<and> n \<le> 90) \<or> (192 \<le> n \<and> n \<le> 222 \<and> n \<noteq> 215)
         then char_of (n + 32) else c)"

definition lower :: "string \<Rightarrow> string" where
  "lower s = map lower_char s"

subsection \<open>The collaborators: configuration, Redis, OpenWeather\<close>

datatype http_outcome =
    Response int "json option"
  | Transport_Error

text \<open>
  \<open>Response status body\<close> is a response object: \<open>status\<close> is \<^verbatim>\<open>status_code\<close> and
  \<open>body\<close> what \<^verbatim>\<open>response.json()\<close> returns (\<open>None\<close> when the body is not JSON and
  the call raises). \<open>Transport_Error\<close> is \<^verbatim>\<open>requests.get\<close> raising.
\<close>

datatype event =
    Redis_Get string
  | Redis_Setex string int string
  | Http_Get string "(string \<times> string) list"

text \<open>
  The environment: the module-level constants read from \<^verbatim>\<open>.env\<close> (lines 24-28), the
  two library functions \<^verbatim>\<open>json.dumps\<close> and \<^verbatim>\<open>json.loads\<close>, and what the outside
  world answers. The \<open>n\<close>-th external call (counted from 0 over all calls, Redis and
  HTTP) finds the Redis server reachable iff \<open>redis_reachable n\<close>, and an HTTP request
  issued as the \<open>n\<close>-th call is answered by \<open>http_answer n\<close>. The variables of
  \<^verbatim>\<open>.env\<close> are taken to be set: without them the module does not load.
\<close>

record env =
  API_KEY :: string
  url :: string
  cache_time :: int
  json_dumps :: "json \<Rightarrow> string"
  json_loads :: "string \<Rightarrow> json option"
  redis_reachable :: "nat \<Rightarrow> bool"
  http_answer :: "nat \<Rightarrow> string \<Rightarrow> (string \<times> string) list \<Rightarrow> http_outcome"

record cache_entry =
  stored_value :: string
  storedAt :: int
  ttl :: int

record world =
  store :: "string \<rightharpoonup> cache_entry"
  trace :: "event list"

text \<open>
  Modelled from the spec: the Redis server behind \<^verbatim>\<open>client\<close> is an external
  collaborator, not code of the repository. Its entries and their validity follow the
  spec's CacheEntry and CacheStore (sections 3 and 4.1): an entry is
  \<open>{value, storedAt, ttl}\<close>, it is valid iff \<open>now < storedAt + ttl\<close>, \<^verbatim>\<open>get\<close>
  reports no value for a missing or expired key, and \<^verbatim>\<open>set\<close> stores a new entry with
  \<open>storedAt = now\<close>, overwriting any earlier one. The failures are those of the redis
  client the code calls directly: a command sent while the server is unreachable raises
  \<^verbatim>\<open>ConnectionError\<close>, and SETEX with an expiry that is not positive raises
  \<^verbatim>\<open>ResponseError\<close>. Every attempted command is recorded in the trace.
\<close>

definition entry_valid :: "int \<Rightarrow> cache_entry \<Rightarrow> bool" where
  "entry_valid now en = (now < storedAt en + ttl en)"

definition store_lookup :: "(string \<rightharpoonup> cache_entry) \<Rightarrow> int \<Rightarrow> string \<Rightarrow> string option" where
  "store_lookup m now k =
     (case m k of
        None \<Rightarrow> None
      | Some en \<Rightarrow> if entry_valid now en then Some (stored_value en) else None)"

definition client_get :: "env \<Rightarrow> int \<Rightarrow> string \<Rightarrow> world \<Rightarrow> (py_error + string option) \<times> world" where
  "client_get e now k w =
     (let w' = w\<lparr>trace := trace w @ [Redis_Get k]\<rparr>
      in if \<not> redis_reachable e (length (trace w)) then (Inl RedisConnectionError, w')
         else (Inr (store_lookup (store w) now k), w'))"

definition client_setex ::
  "env \<Rightarrow> int \<Rightarrow> string \<Rightarrow> int \<Rightarrow> string \<Rightarrow> world \<Rightarrow> (py_error + unit) \<times> world" where
  "client_setex e now k seconds v w =
     (let w' = w\<lparr>trace := trace w @ [Redis_Setex k seconds v]\<rparr>
      in if \<not> redis_reachable e (length (trace w)) then (Inl RedisConnectionError, w')
         else if seconds \<le> 0 then (Inl RedisResponseError, w')
         else (Inr (),
               w'\<lparr>store := (store w)(k \<mapsto> \<lparr>stored_value = v, storedAt = now, ttl = seconds\<rparr>)\<rparr>))"

text \<open>\<^verbatim>\<open>requests.get(url, params=params)\<close>: one outbound request, recorded in the trace.\<close>

definition requests_get ::
  "env \<Rightarrow> string \<Rightarrow> (string \<times> string) list \<Rightarrow> world \<Rightarrow> http_outcome \<times> world" where
  "requests_get e u params w =
     (http_answer e (length (trace w)) u params, w\<lparr>trace := trace w @ [Http_Get u params]\<rparr>)"

subsection \<open>fetch_weather (lines 58-105)\<close>

text \<open>Line 61: \<^verbatim>\<open>cache_key = f"weather:{city},{country}"\<close>.\<close>

definition cache_key :: "string \<Rightarrow> string \<Rightarrow> string" where
  "cache_key city country = ''weather:'' @ city @ '','' @ country"

text \<open>Lines 72-76: the query parameters.\<close>

definition query_params :: "env \<Rightarrow> string \<Rightarrow> string \<Rightarrow> (string \<times> string) list" where
  "query_params e city country =
     [(''q'', city @ '','' @ country), (''appid'', API_KEY e), (''units'', ''metric'')]"

text \<open>
  \<^verbatim>\<open>if cached_data:\<close> holds for a string that is not empty; not for \<^verbatim>\<open>None\<close>.
  Below, \<open>the cached_data\<close> is read under that test only.
\<close>

definition truthy :: "string option \<Rightarrow> bool" where
  "truthy cached_data = (case cached_data of None \<Rightarrow> False | Some s \<Rightarrow> s \<noteq> [])"

text \<open>
  Lines 88-97: the dict display, its values evaluated in the order written; the first
  one that raises ends the evaluation.
\<close>

definition index2 :: "json \<Rightarrow> string \<Rightarrow> string \<Rightarrow> py_error + json" where
  "index2 body a b = bind_err (py_index body a) (\<lambda>inner. py_index inner b)"

definition extract_fields :: "json \<Rightarrow> py_error + json" where
  "extract_fields body =
     bind_err (py_get body ''name'') (\<lambda>name.
     bind_err (index2 body ''main'' ''temp'') (\<lambda>temperature.
     bind_err (index2 body ''main'' ''feels_like'') (\<lambda>feels_like.
     bind_err (index2 body ''main'' ''humidity'') (\<lambda>humidity.
     bind_err (index2 body ''main'' ''pressure'') (\<lambda>pressure.
     bind_err (index2 body ''wind'' ''speed'') (\<lambda>wind.
     bind_err (index2 body ''clouds'' ''all'') (\<lambda>clouds.
     bind_err (py_index body ''timezone'') (\<lambda>timezone.
       Inr (JObj [(''name'', name), (''temperature'', temperature),
                  (''feels_like'', feels_like), (''humidity'', humidity),
                  (''pressure'', pressure), (''wind'', wind),
                  (''clouds'', clouds), (''timezone'', timezone)])))))))))"

definition fetch_weather :: "env \<Rightarrow> int \<Rightarrow> string \<Rightarrow> string \<Rightarrow> world \<Rightarrow> (py_error + json) \<times> world" where
  "fetch_weather e now city country w =
     (case client_get e now (cache_key city country) w of
        (Inl err, w1) \<Rightarrow> (Inl err, w1)
      | (Inr cached_data, w1) \<Rightarrow>
          if truthy cached_data then
            (case json_loads e (the cached_data) of
               None \<Rightarrow> (Inl JSONDecodeError, w1)
             | Some data \<Rightarrow> (Inr data, w1))
          else
            (case requests_get e (url e) (query_params e city country) w1 of
               (Transport_Error, w2) \<Rightarrow> (Inl RequestException, w2)
             | (Response status_code body, w2) \<Rightarrow>
                 if status_code \<noteq> 200 then (Inr JNull, w2)
                 else
                   (case body of
                      None \<Rightarrow> (Inl JSONDecodeError, w2)
                    | Some b \<Rightarrow>
                        (case extract_fields b of
                           Inl err \<Rightarrow> (Inl err, w2)
                         | Inr data \<Rightarrow>
                             (case client_setex e now (cache_key city country) (cache_time e)
                                     (json_dumps e data) w2 of
                                (Inl err, w3) \<Rightarrow> (Inl err, w3)
                              | (Inr _, w3) \<Rightarrow> (Inr data, w3))))))"

subsection \<open>The /weather route (lines 129-151)\<close>

datatype page =
    Text string
  | Template string json

definition invalid_input :: string where
  "invalid_input = ''Invalid input. Try e.g. Hyderabad,IN''"

definition invalid_format :: string where
  "invalid_format = ''Invalid format. Use City,Country (e.g. Hyderabad,IN)''"

definition could_not_fetch :: string where
  "could_not_fetch = ''Could not fetch weather. Please check city name.''"

text \<open>Line 140: \<^verbatim>\<open>[x.strip().lower() for x in info.split(",", 1)]\<close>.\<close>

definition parse_location :: "string \<Rightarrow> string list" where
  "parse_location info = map (\<lambda>x. lower (strip x)) (split_comma info)"

text \<open>
  \<open>info\<close> is \<^verbatim>\<open>request.args.get("city")\<close>: \<open>None\<close> when the parameter is absent.
  Unpacking into \<^verbatim>\<open>city, country\<close> raises \<^verbatim>\<open>ValueError\<close> unless the list has two
  elements; the route catches it.
\<close>

definition weather :: "env \<Rightarrow> int \<Rightarrow> string option \<Rightarrow> world \<Rightarrow> (py_error + page) \<times> world" where
  "weather e now info w =
     (case info of
        None \<Rightarrow> (Inr (Text invalid_input), w)
      | Some s \<Rightarrow>
          if s = [] then (Inr (Text invalid_input), w)
          else
            (case parse_location s of
               [city, country] \<Rightarrow>
                 (case fetch_weather e now city country w of
                    (Inl err, w') \<Rightarrow> (Inl err, w')
                  | (Inr data, w') \<Rightarrow>
                      if data = JNull then (Inr (Text could_not_fetch), w')
                      else (Inr (Template ''weather_info.html'' data), w'))
             | _ \<Rightarrow> (Inr (Text invalid_format), w)))"

text \<open>
  The key a request is looked up under: line 140 followed by line 61. \<open>None\<close> when the
  route rejects the input before any lookup.
\<close>

definition request_key :: "string \<Rightarrow> string option" where
  "request_key info =
     (case parse_location info of
        [city, country] \<Rightarrow> Some (cache_key city country)
      | _ \<Rightarrow> None)"

subsection \<open>A sample run: Hyderabad, IN with a TTL of 300 seconds\<close>

text \<open>
  Concrete collaborators for the closed theorems below: an OpenWeather answer, the record
  \<^verbatim>\<open>fetch_weather\<close> builds from it, and an environment whose Redis server is always
  reachable and whose upstream always answers 200 with that payload. Its JSON codec is a
  table with the one record the run needs.
\<close>

definition sample_payload :: json where
  "sample_payload =
     JObj [(''name'', JStr ''Hyderabad''),
           (''main'', JObj [(''temp'', JNum (301 / 10)), (''feels_like'', JNum 33),
                            (''humidity'', JNum 65), (''pressure'', JNum 1009)]),
           (''wind'', JObj [(''speed'', JNum (9 / 2))]),
           (''clouds'', JObj [(''all'', JNum 40)]),
           (''timezone'', JNum 19800)]"

definition sample_record :: json where
  "sample_record =
     JObj [(''name'', JStr ''Hyderabad''), (''temperature'', JNum (301 / 10)),
           (''feels_like'', JNum 33), (''humidity'', JNum 65), (''pressure'', JNum 1009),
           (''wind'', JNum (9 / 2)), (''clouds'', JNum 40), (''timezone'', JNum 19800)]"

definition sample_text :: string where
  \<open>sample_text = ''{"name": "Hyderabad", "temperature": 30.1, "feels_like": 33, "humidity": 65, "pressure": 1009, "wind": 4.5, "clouds": 40, "timezone": 19800}''\<close>

definition sample_env :: env where
  "sample_env =
     \<lparr>API_KEY = ''key'', url = ''https://api.openweathermap.org/data/2.5/weather'',
      cache_time = 300,
      json_dumps = (\<lambda>d. if d = sample_record then sample_text else ''null''),
      json_loads = (\<lambda>s. if s = sample_text then Some sample_record else None),
      redis_reachable = (\<lambda>n. True),
      http_answer = (\<lambda>n u params. Response 200 (Some sample_payload))\<rparr>"

definition empty_world :: world where
  "empty_world = \<lparr>store = Map.empty, trace = []\<rparr>"

definition sample_request :: event where
  "sample_request =
     Http_Get ''https://api.openweathermap.org/data/2.5/weather''
       [(''q'', ''hyderabad,in''), (''appid'', ''key''), (''units'', ''metric'')]"

text \<open>The world after the first lookup of Hyderabad, IN at instant 0.\<close>

definition populated_world :: world where
  "populated_world =
     \<lparr>store = [''weather:hyderabad,in'' \<mapsto>
                 \<lparr>stored_value = sample_text, storedAt = 0, ttl = 300\<rparr>],
      trace = [Redis_Get ''weather:hyderabad,in'', sample_request,
               Redis_Setex ''weather:hyderabad,in'' 300 sample_text]\<rparr>"

text \<open>Variations: an upstream that answers 404, one that answers 503, and a Redis
  server that is never reachable, or reachable for the first two external calls only.\<close>

definition not_found_env :: env where
  "not_found_env =
     sample_env\<lparr>http_answer := (\<lambda>n u params.
        Response 404 (Some (JObj [(''cod'', JStr ''404''), (''message'', JStr ''city not found'')])))\<rparr>"

definition unavailable_env :: env where
  "unavailable_env = sample_env\<lparr>http_answer := (\<lambda>n u params. Response 503 None)\<rparr>"

definition offline_env :: env where
  "offline_env = sample_env\<lparr>redis_reachable := (\<lambda>n. False)\<rparr>"

definition flaky_env :: env where
  "flaky_env = sample_env\<lparr>redis_reachable := (\<lambda>n. n < 2)\<rparr>"

text \<open>The world after a lookup of Hyderabad, IN that the upstream refused.\<close>

definition failed_world :: world where
  "failed_world =
     \<lparr>store = Map.empty, trace = [Redis_Get ''weather:hyderabad,in'', sample_request]\<rparr>"

text \<open>An upstream whose 200 answer lacks the \<^verbatim>\<open>wind\<close> object, and a payload that
  lacks \<^verbatim>\<open>name\<close>.\<close>

definition payload_without_wind :: json where
  "payload_without_wind =
     JObj [(''name'', JStr ''Hyderabad''),
           (''main'', JObj [(''temp'', JNum (301 / 10)), (''feels_like'', JNum 33),
                            (''humidity'', JNum 65), (''pressure'', JNum 1009)]),
           (''clouds'', JObj [(''all'', JNum 40)]),
           (''timezone'', JNum 19800)]"

definition payload_without_name :: json where
  "payload_without_name =
     JObj [(''main'', JObj [(''temp'', JNum 0), (''feels_like'', JNum 33),
                            (''humidity'', JNum 65), (''pressure'', JNum 1009)]),
           (''wind'', JObj [(''speed'', JNum (9 / 2))]),
           (''clouds'', JObj [(''all'', JNum 40)]),
           (''timezone'', JNum 19800)]"

definition windless_env :: env where
  "windless_env =
     sample_env\<lparr>http_answer := (\<lambda>n u params. Response 200 (Some payload_without_wind))\<rparr>"

subsection \<open>Inputs that differ only in letter case\<close>

text \<open>
  The relation the key-derivation claim speaks of, written from its words and not from
  \<^verbatim>\<open>str.lower\<close>: two strings differ only in letter case when they have the same
  length and, position by position, hold the same code point or the capital and the small
  form of one letter. Below 256 the letters with both forms are A-Z and the Latin-1
  capitals 192-214 and 216-222, each 32 below its small form.
\<close>

definition is_capital :: "char \<Rightarrow> bool" where
  "is_capital c =
     (let n = (of_char c :: nat)
      in (65 \<le> n \<and> n \<le> 90) \<or> (192 \<le> n \<and> n \<le> 214) \<or> (216 \<le> n \<and> n \<le> 222))"

definition case_pair :: "char \<Rightarrow> char \<Rightarrow> bool" where
  "case_pair a b =
     (a = b \<or>
      (is_capital a \<and> (of_char b :: nat) = of_char a + 32) \<or>
      (is_capital b \<and> (of_char a :: nat) = of_char b + 32))"

definition differ_only_in_case :: "string \<Rightarrow> string \<Rightarrow> bool" where
  "differ_only_in_case x y = list_all2 case_pair x y"

section \<open>Properties\<close>

subsection \<open>Basic facts about fetch_weather\<close>

lemmas fw_defs = fetch_weather_def client_get_def client_setex_def requests_get_def Let_def

lemma fetch_weather_hit:
  assumes "redis_reachable e (length (trace w))"
    and "store_lookup (store w) now (cache_key city country) = Some txt"
    and "txt \<noteq> []"
  shows "fetch_weather e now city country w =
           (case json_loads e txt of None \<Rightarrow> Inl JSONDecodeError | Some d \<Rightarrow> Inr d,
            w\<lparr>trace := trace w @ [Redis_Get (cache_key city country)]\<rparr>)"
  using assms by (simp add: fw_defs truthy_def split: option.splits)

lemma fetch_weather_miss_trace:
  assumes "redis_reachable e (length (trace w))"
    and "\<not> truthy (store_lookup (store w) now (cache_key city country))"
  shows "\<exists>rest. trace (snd (fetch_weather e now city country w)) =
           trace w @ Redis_Get (cache_key city country)
                   # Http_Get (url e) (query_params e city country) # rest"
  using assms
  by (auto simp add: fw_defs split: http_outcome.splits option.splits sum.splits)

text \<open>A lookup that ended by storing its record left exactly that entry under the key.\<close>

lemma fetch_weather_populated:
  assumes "fetch_weather e t0 city country w0 = (Inr d, w1)"
    and "last (trace w1) =
           Redis_Setex (cache_key city country) (cache_time e) (json_dumps e d)"
  shows "store w1 (cache_key city country) =
           Some \<lparr>stored_value = json_dumps e d, storedAt = t0, ttl = cache_time e\<rparr>"
  using assms
  by (auto simp add: fw_defs split: http_outcome.splits option.splits sum.splits if_splits)

lemma extract_sample: "extract_fields sample_payload = Inr sample_record"
  by (simp add: extract_fields_def index2_def bind_err_def sample_payload_def
      sample_record_def)

lemma sample_text_nonempty: "sample_text \<noteq> []"
  by (simp add: sample_text_def)

lemma first_lookup:
  "fetch_weather sample_env 0 ''hyderabad'' ''in'' empty_world =
     (Inr sample_record, populated_world)"
  by (simp add: fw_defs extract_sample truthy_def store_lookup_def sample_env_def
      empty_world_def populated_world_def cache_key_def query_params_def sample_request_def)

lemma populated_world_stored:
  "last (trace populated_world) =
     Redis_Setex (cache_key ''hyderabad'' ''in'') (cache_time sample_env)
       (json_dumps sample_env sample_record)"
  by (simp add: populated_world_def cache_key_def sample_env_def)

subsection \<open>C1: the cached branch\<close>

text \<open>
  C1. Once a lookup of a city/country pair has stored its record \<open>d\<close> (it returned \<open>d\<close>
  and its last external call was the SETEX of \<open>json.dumps(d)\<close> under the pair's key),
  a later lookup of the same pair before \<open>storedAt + ttl\<close>, with Redis reachable, returns
  \<open>d\<close> again and issues one Redis GET and nothing else: the trace grows by that GET
  only, so no HTTP request is made, and the store is untouched. The two library
  functions are assumed to do what Python's do on \<open>d\<close>: \<^verbatim>\<open>json.loads\<close> inverts
  \<^verbatim>\<open>json.dumps\<close>, and the dumped text is not empty.
\<close>

theorem cache_hit_short_circuit:
  assumes first: "fetch_weather e t0 city country w0 = (Inr d, w1)"
    and stored: "last (trace w1) =
                   Redis_Setex (cache_key city country) (cache_time e) (json_dumps e d)"
    and window: "t0 \<le> t" "t < t0 + cache_time e"
    and reachable: "redis_reachable e (length (trace w1))"
    and codec: "json_loads e (json_dumps e d) = Some d" "json_dumps e d \<noteq> []"
  shows "fetch_weather e t city country w1 =
           (Inr d, w1\<lparr>trace := trace w1 @ [Redis_Get (cache_key city country)]\<rparr>)"
proof -
  have "store_lookup (store w1) t (cache_key city country) = Some (json_dumps e d)"
    using fetch_weather_populated [OF first stored] window
    by (simp add: store_lookup_def entry_valid_def)
  from fetch_weather_hit [OF reachable this codec(2)] codec(1)
  show ?thesis by simp
qed

theorem cache_hit_short_circuit_witness:
  "fetch_weather sample_env 0 ''hyderabad'' ''in'' empty_world =
     (Inr sample_record, populated_world) \<and>
   fetch_weather sample_env 299 ''hyderabad'' ''in'' populated_world =
     (Inr sample_record,
      populated_world\<lparr>trace := trace populated_world @ [Redis_Get ''weather:hyderabad,in'']\<rparr>)"
proof -
  have window: "(0::int) \<le> 299" "299 < 0 + cache_time sample_env"
    by (simp_all add: sample_env_def)
  have reachable: "redis_reachable sample_env (length (trace populated_world))"
    by (simp add: sample_env_def)
  have codec: "json_loads sample_env (json_dumps sample_env sample_record) = Some sample_record"
    "json_dumps sample_env sample_record \<noteq> []"
    by (simp_all add: sample_env_def sample_text_nonempty)
  from cache_hit_short_circuit [OF first_lookup populated_world_stored window reachable codec]
  show ?thesis by (simp add: cache_key_def first_lookup)
qed

subsection \<open>Basic facts about the route\<close>

lemma parse_location_no_comma: "comma \<notin> set s \<Longrightarrow> parse_location s = [lower (strip s)]"
  by (simp add: parse_location_def split_comma_def)

lemma parse_location_comma:
  "comma \<in> set s \<Longrightarrow>
   parse_location s = [lower (strip (takeWhile (\<lambda>c. c \<noteq> comma) s)),
                       lower (strip (tl (dropWhile (\<lambda>c. c \<noteq> comma) s)))]"
  by (simp add: parse_location_def split_comma_def)

lemma weather_trace:
  assumes "parse_location s = [city, country]" "s \<noteq> []"
  shows "trace (snd (weather e now (Some s) w)) = trace (snd (fetch_weather e now city country w))"
  using assms by (simp add: weather_def split: prod.splits sum.splits)

lemma fetch_weather_first_event:
  "\<exists>rest. trace (snd (fetch_weather e now city country w)) =
     trace w @ Redis_Get (cache_key city country) # rest"
  by (auto simp: fw_defs split: sum.splits option.splits http_outcome.splits)

lemma weather_not_validation:
  assumes "parse_location s = [city, country]" "s \<noteq> []"
  shows "fst (weather e now (Some s) w) \<noteq> Inr (Text invalid_input) \<and>
         fst (weather e now (Some s) w) \<noteq> Inr (Text invalid_format)"
  using assms
  by (simp add: weather_def invalid_input_def invalid_format_def could_not_fetch_def
      split: prod.splits sum.splits)

lemma hyderabad_parsed: "parse_location ''Hyderabad,IN'' = [''hyderabad'', ''in'']"
  by code_simp

lemma empty_city_parts:
  "lower (strip (takeWhile (\<lambda>c. c \<noteq> comma) '',in'')) = []"
  "lower (strip (tl (dropWhile (\<lambda>c. c \<noteq> comma) '',in''))) = ''in''"
  by code_simp+

lemma empty_country_parts:
  "lower (strip (takeWhile (\<lambda>c. c \<noteq> comma) ''hyderabad,'')) = ''hyderabad''"
  "lower (strip (tl (dropWhile (\<lambda>c. c \<noteq> comma) ''hyderabad,''))) = []"
  by code_simp+

subsection \<open>C4: a failed lookup is not cached\<close>

text \<open>
  C4. A lookup that reaches the upstream (Redis reachable, no usable cached value) and
  is answered with a status other than 200 returns \<^verbatim>\<open>None\<close>. Its only external calls
  are the Redis GET and the HTTP request: no SETEX is issued and the store afterwards is
  the store before. An identical lookup at any later instant, with Redis reachable,
  again issues the Redis GET followed by the HTTP request.
\<close>

theorem failed_lookup_not_cached:
  assumes reachable: "redis_reachable e (length (trace w))"
    and miss: "\<not> truthy (store_lookup (store w) now (cache_key city country))"
    and answer: "http_answer e (Suc (length (trace w))) (url e) (query_params e city country)
                   = Response status body"
    and failed: "status \<noteq> 200"
  shows "\<exists>w'. fetch_weather e now city country w = (Inr JNull, w') \<and>
           store w' = store w \<and>
           trace w' = trace w @ [Redis_Get (cache_key city country),
                                 Http_Get (url e) (query_params e city country)] \<and>
           (\<forall>later. now \<le> later \<and> redis_reachable e (length (trace w')) \<longrightarrow>
              (\<exists>rest. trace (snd (fetch_weather e later city country w')) =
                 trace w' @ Redis_Get (cache_key city country)
                          # Http_Get (url e) (query_params e city country) # rest))"
proof -
  let ?w' = "w\<lparr>trace := trace w @ [Redis_Get (cache_key city country),
                                     Http_Get (url e) (query_params e city country)]\<rparr>"
  have run: "fetch_weather e now city country w = (Inr JNull, ?w')"
    using assms by (simp add: fw_defs)
  have still_miss: "\<not> truthy (store_lookup (store ?w') later (cache_key city country))"
    if "now \<le> later" for later
    using miss that
    by (auto simp: truthy_def store_lookup_def entry_valid_def split: option.splits if_splits)
  have "\<exists>rest. trace (snd (fetch_weather e later city country ?w')) =
                 trace ?w' @ Redis_Get (cache_key city country)
                          # Http_Get (url e) (query_params e city country) # rest"
    if "now \<le> later" "redis_reachable e (length (trace ?w'))" for later
    using fetch_weather_miss_trace [OF that(2) still_miss [OF that(1)]] .
  with run show ?thesis by (intro exI [of _ ?w']) simp
qed

theorem failed_lookup_not_cached_witness:
  "fetch_weather not_found_env 0 ''hyderabad'' ''in'' empty_world = (Inr JNull, failed_world) \<and>
   (\<exists>rest. trace (snd (fetch_weather not_found_env 5 ''hyderabad'' ''in'' failed_world)) =
      trace failed_world @ Redis_Get ''weather:hyderabad,in'' # sample_request # rest)"
proof -
  have reachable: "redis_reachable not_found_env (length (trace empty_world))"
    by (simp add: not_found_env_def sample_env_def)
  have miss: "\<not> truthy (store_lookup (store empty_world) 0 (cache_key ''hyderabad'' ''in''))"
    by (simp add: truthy_def store_lookup_def empty_world_def)
  have answer: "http_answer not_found_env (Suc (length (trace empty_world))) (url not_found_env)
      (query_params not_found_env ''hyderabad'' ''in'') =
      Response 404 (Some (JObj [(''cod'', JStr ''404''), (''message'', JStr ''city not found'')]))"
    by (simp add: not_found_env_def)
  have failed: "(404::int) \<noteq> 200" by simp
  from failed_lookup_not_cached [OF reachable miss answer failed]
  obtain w' where run: "fetch_weather not_found_env 0 ''hyderabad'' ''in'' empty_world = (Inr JNull, w')"
    and st: "store w' = store empty_world"
    and tr: "trace w' = trace empty_world @ [Redis_Get (cache_key ''hyderabad'' ''in''),
               Http_Get (url not_found_env) (query_params not_found_env ''hyderabad'' ''in'')]"
    and again: "\<And>later. 0 \<le> later \<and> redis_reachable not_found_env (length (trace w')) \<Longrightarrow>
        \<exists>rest. trace (snd (fetch_weather not_found_env later ''hyderabad'' ''in'' w')) =
          trace w' @ Redis_Get (cache_key ''hyderabad'' ''in'')
            # Http_Get (url not_found_env) (query_params not_found_env ''hyderabad'' ''in'') # rest"
    by blast
  have w': "w' = failed_world"
    using st tr
    by (simp add: failed_world_def empty_world_def cache_key_def query_params_def
        not_found_env_def sample_env_def sample_request_def)
  have "redis_reachable not_found_env (length (trace w'))"
    by (simp add: not_found_env_def sample_env_def)
  with again [of 5] run show ?thesis
    by (simp add: w' cache_key_def query_params_def not_found_env_def sample_env_def
        sample_request_def)
qed

subsection \<open>C7: malformed requests stop at the route\<close>

text \<open>
  C7 (as the code has it). The route rejects what its two checks catch: a request
  without the \<^verbatim>\<open>city\<close> parameter, with an empty one, or with one that has no comma
  is answered at once with a validation message (\<^verbatim>\<open>Invalid input\<close> for the first
  two, \<^verbatim>\<open>Invalid format\<close> for the third), and the world is returned as it was: the
  trace has no new Redis command and no new HTTP request.
\<close>

theorem malformed_request_rejected:
  assumes "info = None \<or> info = Some [] \<or> (\<exists>s. info = Some s \<and> comma \<notin> set s)"
  shows "weather e now info w =
           (Inr (Text (if info = None \<or> info = Some [] then invalid_input else invalid_format)), w)"
proof (cases info)
  case None
  then show ?thesis by (simp add: weather_def)
next
  case (Some s)
  with assms have "s = [] \<or> comma \<notin> set s" by auto
  with Some show ?thesis
    by (cases "s = []") (simp_all add: weather_def parse_location_no_comma)
qed

theorem malformed_request_rejected_witness:
  "weather sample_env 0 None populated_world = (Inr (Text invalid_input), populated_world) \<and>
   weather sample_env 0 (Some []) populated_world = (Inr (Text invalid_input), populated_world) \<and>
   weather sample_env 0 (Some ''hyderabad'') populated_world =
     (Inr (Text invalid_format), populated_world)"
  using malformed_request_rejected [of None sample_env 0 populated_world]
    malformed_request_rejected [of "Some []" sample_env 0 populated_world]
    malformed_request_rejected [of "Some ''hyderabad''" sample_env 0 populated_world]
  by (simp add: comma_def)

text \<open>
  The claim as stated fails: the lone comma is not in City,Country format, yet the route
  accepts it, with an empty city and an empty country, asks Redis for
  \<^verbatim>\<open>weather:,\<close>, sends the upstream request, stores the answer and renders it.
\<close>

lemma comma_only_parsed: "parse_location '','' = [[], []]"
  by code_simp

theorem comma_only_request_counterexample:
  "fst (weather sample_env 0 (Some '','') empty_world) =
     Inr (Template ''weather_info.html'' sample_record) \<and>
   trace (snd (weather sample_env 0 (Some '','') empty_world)) =
     [Redis_Get ''weather:,'',
      Http_Get ''https://api.openweathermap.org/data/2.5/weather''
        [(''q'', '',''), (''appid'', ''key''), (''units'', ''metric'')],
      Redis_Setex ''weather:,'' 300 sample_text]"
proof -
  have "fetch_weather sample_env 0 [] [] empty_world =
     (Inr sample_record,
      \<lparr>store = [''weather:,'' \<mapsto> \<lparr>stored_value = sample_text, storedAt = 0, ttl = 300\<rparr>],
       trace = [Redis_Get ''weather:,'',
                Http_Get ''https://api.openweathermap.org/data/2.5/weather''
                  [(''q'', '',''), (''appid'', ''key''), (''units'', ''metric'')],
                Redis_Setex ''weather:,'' 300 sample_text]\<rparr>)"
    by (simp add: fw_defs extract_sample truthy_def store_lookup_def sample_env_def
        empty_world_def cache_key_def query_params_def)
  then show ?thesis
    by (simp add: weather_def comma_only_parsed sample_record_def)
qed

subsection \<open>C10: any non-empty input with a comma is accepted\<close>

text \<open>
  C10. For a parameter that is not empty and contains a comma, the route answers with
  neither validation message and goes on to \<^verbatim>\<open>fetch_weather\<close> with the stripped,
  lower-cased text before and after the first comma, even when one of them is empty: the
  first new external call is the Redis GET for that pair's key, and when Redis is
  reachable and has no usable value for it the HTTP request for the pair follows.
\<close>

theorem comma_input_passes_validation:
  assumes nonempty: "s \<noteq> []" and has_comma: "comma \<in> set s"
  shows "\<exists>city country.
           city = lower (strip (takeWhile (\<lambda>c. c \<noteq> comma) s)) \<and>
           country = lower (strip (tl (dropWhile (\<lambda>c. c \<noteq> comma) s))) \<and>
           fst (weather e now (Some s) w) \<noteq> Inr (Text invalid_input) \<and>
           fst (weather e now (Some s) w) \<noteq> Inr (Text invalid_format) \<and>
           (\<exists>rest. trace (snd (weather e now (Some s) w)) =
                     trace w @ Redis_Get (cache_key city country) # rest) \<and>
           (redis_reachable e (length (trace w)) \<and>
            \<not> truthy (store_lookup (store w) now (cache_key city country)) \<longrightarrow>
            (\<exists>rest. trace (snd (weather e now (Some s) w)) =
                      trace w @ Redis_Get (cache_key city country)
                              # Http_Get (url e) (query_params e city country) # rest))"
proof -
  let ?city = "lower (strip (takeWhile (\<lambda>c. c \<noteq> comma) s))"
  let ?country = "lower (strip (tl (dropWhile (\<lambda>c. c \<noteq> comma) s)))"
  have parsed: "parse_location s = [?city, ?country]"
    by (rule parse_location_comma [OF has_comma])
  note tr = weather_trace [OF parsed nonempty]
  show ?thesis
    using weather_not_validation [OF parsed nonempty, of e now w]
      fetch_weather_first_event [of e now ?city ?country w]
      fetch_weather_miss_trace [of e w now ?city ?country]
    by (simp add: tr)
qed

theorem comma_input_passes_validation_witness:
  "(\<exists>rest. trace (snd (weather sample_env 0 (Some '',in'') empty_world)) =
      Redis_Get ''weather:,in''
      # Http_Get (url sample_env) [(''q'', '',in''), (''appid'', ''key''), (''units'', ''metric'')]
      # rest) \<and>
   (\<exists>rest. trace (snd (weather sample_env 0 (Some ''hyderabad,'') empty_world)) =
      Redis_Get ''weather:hyderabad,''
      # Http_Get (url sample_env) [(''q'', ''hyderabad,''), (''appid'', ''key''), (''units'', ''metric'')]
      # rest)"
proof -
  have a: "'',in'' \<noteq> []" "comma \<in> set '',in''"
    and b: "''hyderabad,'' \<noteq> []" "comma \<in> set ''hyderabad,''"
    by (simp_all add: comma_def)
  show ?thesis
    using comma_input_passes_validation [OF a, of sample_env 0 empty_world,
        unfolded empty_city_parts]
      comma_input_passes_validation [OF b, of sample_env 0 empty_world,
        unfolded empty_country_parts]
    by (simp add: truthy_def store_lookup_def cache_key_def query_params_def empty_world_def
        sample_env_def)
qed

subsection \<open>C5: expiry\<close>

text \<open>An expired entry and a missing entry are indistinguishable to \<^verbatim>\<open>fetch_weather\<close>.\<close>

lemma fetch_weather_expired_as_missing:
  assumes "store w (cache_key city country) = Some en" "\<not> entry_valid now en"
  shows "fst (fetch_weather e now city country w) =
         fst (fetch_weather e now city country (w\<lparr>store := (store w)(cache_key city country := None)\<rparr>))"
    and "trace (snd (fetch_weather e now city country w)) =
         trace (snd (fetch_weather e now city country (w\<lparr>store := (store w)(cache_key city country := None)\<rparr>)))"
    and "now \<le> later \<Longrightarrow>
         store_lookup (store (snd (fetch_weather e now city country w))) later k' =
         store_lookup (store (snd (fetch_weather e now city country
            (w\<lparr>store := (store w)(cache_key city country := None)\<rparr>)))) later k'"
  using assms
  by (auto simp add: fw_defs truthy_def store_lookup_def entry_valid_def
      split: http_outcome.splits option.splits sum.splits)

text \<open>
  C5. After a lookup at \<open>t0\<close> has stored its record, the entry is visible at instant
  \<open>t\<close> exactly when \<open>t < t0 + cache_time\<close>. Before that instant a lookup (Redis
  reachable) is served by the Redis GET alone. From \<open>t0 + cache_time\<close> on, the lookup
  does what it does in the same world with the key deleted: same result, same external
  calls, and afterwards the same visible cache contents at every later instant; and it
  sends the HTTP request again instead of returning the stale record.
\<close>

theorem ttl_expiry:
  assumes first: "fetch_weather e t0 city country w0 = (Inr d, w1)"
    and stored: "last (trace w1) =
                   Redis_Setex (cache_key city country) (cache_time e) (json_dumps e d)"
    and reachable: "redis_reachable e (length (trace w1))"
    and nonempty: "json_dumps e d \<noteq> []"
  shows "(store_lookup (store w1) t (cache_key city country) = Some (json_dumps e d)
            \<longleftrightarrow> t < t0 + cache_time e) \<and>
         (t < t0 + cache_time e \<longrightarrow>
            trace (snd (fetch_weather e t city country w1)) =
              trace w1 @ [Redis_Get (cache_key city country)]) \<and>
         (t0 + cache_time e \<le> t \<longrightarrow>
            fst (fetch_weather e t city country w1) =
              fst (fetch_weather e t city country
                     (w1\<lparr>store := (store w1)(cache_key city country := None)\<rparr>)) \<and>
            trace (snd (fetch_weather e t city country w1)) =
              trace (snd (fetch_weather e t city country
                     (w1\<lparr>store := (store w1)(cache_key city country := None)\<rparr>))) \<and>
            (\<forall>later k. t \<le> later \<longrightarrow>
               store_lookup (store (snd (fetch_weather e t city country w1))) later k =
               store_lookup (store (snd (fetch_weather e t city country
                     (w1\<lparr>store := (store w1)(cache_key city country := None)\<rparr>)))) later k) \<and>
            (\<exists>rest. trace (snd (fetch_weather e t city country w1)) =
               trace w1 @ Redis_Get (cache_key city country)
                        # Http_Get (url e) (query_params e city country) # rest))"
proof -
  let ?k = "cache_key city country"
  let ?en = "\<lparr>stored_value = json_dumps e d, storedAt = t0, ttl = cache_time e\<rparr>"
  have entry: "store w1 ?k = Some ?en"
    by (rule fetch_weather_populated [OF first stored])
  have visible: "store_lookup (store w1) t ?k = Some (json_dumps e d) \<longleftrightarrow> t < t0 + cache_time e"
    using entry by (simp add: store_lookup_def entry_valid_def)
  have hit: "trace (snd (fetch_weather e t city country w1)) = trace w1 @ [Redis_Get ?k]"
    if "t < t0 + cache_time e"
    using fetch_weather_hit [OF reachable _ nonempty, of t city country] visible that
    by simp
  have late: "fst (fetch_weather e t city country w1) =
              fst (fetch_weather e t city country (w1\<lparr>store := (store w1)(?k := None)\<rparr>)) \<and>
            trace (snd (fetch_weather e t city country w1)) =
              trace (snd (fetch_weather e t city country
                     (w1\<lparr>store := (store w1)(?k := None)\<rparr>))) \<and>
            (\<forall>later k. t \<le> later \<longrightarrow>
               store_lookup (store (snd (fetch_weather e t city country w1))) later k =
               store_lookup (store (snd (fetch_weather e t city country
                     (w1\<lparr>store := (store w1)(?k := None)\<rparr>)))) later k) \<and>
            (\<exists>rest. trace (snd (fetch_weather e t city country w1)) =
               trace w1 @ Redis_Get ?k # Http_Get (url e) (query_params e city country) # rest)"
    if over: "t0 + cache_time e \<le> t"
  proof -
    have expired: "\<not> entry_valid t ?en"
      using over by (simp add: entry_valid_def)
    have miss: "\<not> truthy (store_lookup (store w1) t ?k)"
      using entry over by (simp add: truthy_def store_lookup_def entry_valid_def)
    show ?thesis
      using fetch_weather_expired_as_missing [OF entry expired]
        fetch_weather_miss_trace [OF reachable miss]
      by simp
  qed
  from visible hit late show ?thesis by blast
qed

theorem ttl_expiry_witness:
  "trace (snd (fetch_weather sample_env 299 ''hyderabad'' ''in'' populated_world)) =
     trace populated_world @ [Redis_Get ''weather:hyderabad,in''] \<and>
   (\<exists>rest. trace (snd (fetch_weather sample_env 301 ''hyderabad'' ''in'' populated_world)) =
     trace populated_world @ Redis_Get ''weather:hyderabad,in'' # sample_request # rest)"
proof -
  have reachable: "redis_reachable sample_env (length (trace populated_world))"
    by (simp add: sample_env_def)
  have nonempty: "json_dumps sample_env sample_record \<noteq> []"
    by (simp add: sample_env_def sample_text_nonempty)
  have early: "(299::int) < 0 + cache_time sample_env" and late: "0 + cache_time sample_env \<le> (301::int)"
    by (simp_all add: sample_env_def)
  have key: "cache_key ''hyderabad'' ''in'' = ''weather:hyderabad,in''"
    by (simp add: cache_key_def)
  have request: "Http_Get (url sample_env) (query_params sample_env ''hyderabad'' ''in'') =
      sample_request"
    by (simp add: query_params_def sample_env_def sample_request_def)
  note at_299 = ttl_expiry [OF first_lookup populated_world_stored reachable nonempty, of 299]
  note at_301 = ttl_expiry [OF first_lookup populated_world_stored reachable nonempty, of 301]
  from at_299 early at_301 late show ?thesis
    unfolding key request by blast
qed

subsection \<open>C2: a Redis outage reaches the caller\<close>

text \<open>
  C2 (as the code has it). Neither \<^verbatim>\<open>fetch_weather\<close> nor the route catches what the
  Redis client raises. If the server is unreachable when \<^verbatim>\<open>client.get\<close> is issued,
  the \<^verbatim>\<open>ConnectionError\<close> is the result of \<^verbatim>\<open>fetch_weather\<close> and of the route, and
  the GET is the only external call: the upstream is not contacted. If the GET reports a
  miss, the upstream answers 200 with a payload that has every field, and the server is
  unreachable when SETEX is issued, the \<^verbatim>\<open>ConnectionError\<close> is the result as well,
  after the HTTP request, and nothing is stored.
\<close>

theorem cache_outage_propagates:
  "(\<not> redis_reachable e (length (trace w)) \<longrightarrow>
      fetch_weather e now city country w =
        (Inl RedisConnectionError, w\<lparr>trace := trace w @ [Redis_Get (cache_key city country)]\<rparr>) \<and>
      (\<forall>s. s \<noteq> [] \<and> parse_location s = [city, country] \<longrightarrow>
         weather e now (Some s) w =
           (Inl RedisConnectionError,
            w\<lparr>trace := trace w @ [Redis_Get (cache_key city country)]\<rparr>))) \<and>
   (redis_reachable e (length (trace w)) \<and>
    \<not> truthy (store_lookup (store w) now (cache_key city country)) \<and>
    http_answer e (Suc (length (trace w))) (url e) (query_params e city country) =
      Response 200 (Some body) \<and>
    extract_fields body = Inr d \<and>
    \<not> redis_reachable e (Suc (Suc (length (trace w)))) \<longrightarrow>
      fetch_weather e now city country w =
        (Inl RedisConnectionError,
         w\<lparr>trace := trace w @ [Redis_Get (cache_key city country),
                                 Http_Get (url e) (query_params e city country),
                                 Redis_Setex (cache_key city country) (cache_time e)
                                   (json_dumps e d)]\<rparr>))"
  by (simp add: fw_defs weather_def)

theorem cache_outage_propagates_witness:
  "weather offline_env 0 (Some ''Hyderabad,IN'') empty_world =
     (Inl RedisConnectionError, empty_world\<lparr>trace := [Redis_Get ''weather:hyderabad,in'']\<rparr>) \<and>
   fetch_weather flaky_env 0 ''hyderabad'' ''in'' empty_world =
     (Inl RedisConnectionError,
      empty_world\<lparr>trace := [Redis_Get ''weather:hyderabad,in'', sample_request,
                             Redis_Setex ''weather:hyderabad,in'' 300 sample_text]\<rparr>)"
proof -
  have down: "\<not> redis_reachable offline_env (length (trace empty_world))"
    by (simp add: offline_env_def)
  have input: "''Hyderabad,IN'' \<noteq> [] \<and> parse_location ''Hyderabad,IN'' = [''hyderabad'', ''in'']"
    by (simp add: hyderabad_parsed)
  have flaky: "redis_reachable flaky_env (length (trace empty_world)) \<and>
    \<not> truthy (store_lookup (store empty_world) 0 (cache_key ''hyderabad'' ''in'')) \<and>
    http_answer flaky_env (Suc (length (trace empty_world))) (url flaky_env)
      (query_params flaky_env ''hyderabad'' ''in'') = Response 200 (Some sample_payload) \<and>
    extract_fields sample_payload = Inr sample_record \<and>
    \<not> redis_reachable flaky_env (Suc (Suc (length (trace empty_world))))"
    by (simp add: flaky_env_def sample_env_def empty_world_def truthy_def store_lookup_def
        extract_sample)
  have key: "cache_key ''hyderabad'' ''in'' = ''weather:hyderabad,in''"
    by (simp add: cache_key_def)
  have request: "Http_Get (url flaky_env) (query_params flaky_env ''hyderabad'' ''in'') =
      sample_request"
    by (simp add: query_params_def flaky_env_def sample_env_def sample_request_def)
  have dumped: "json_dumps flaky_env sample_record = sample_text" "cache_time flaky_env = 300"
    by (simp_all add: flaky_env_def sample_env_def)
  have start: "trace empty_world = []"
    by (simp add: empty_world_def)
  from cache_outage_propagates [of offline_env empty_world 0 "''hyderabad''" "''in''"
      sample_payload sample_record] down input
    cache_outage_propagates [of flaky_env empty_world 0 "''hyderabad''" "''in''"
      sample_payload sample_record] flaky
  show ?thesis
    unfolding key request dumped start by simp
qed

text \<open>
  The claim as stated fails: with Redis unreachable at every call the lookup and the
  route end in the Redis \<^verbatim>\<open>ConnectionError\<close> after the GET alone, and with Redis
  lost between GET and SETEX the lookup ends in it although the upstream answered.
\<close>

theorem cache_outage_counterexample:
  "fst (fetch_weather offline_env 0 ''hyderabad'' ''in'' empty_world) = Inl RedisConnectionError \<and>
   fst (weather offline_env 0 (Some ''Hyderabad,IN'') empty_world) = Inl RedisConnectionError \<and>
   trace (snd (weather offline_env 0 (Some ''Hyderabad,IN'') empty_world)) =
     [Redis_Get ''weather:hyderabad,in''] \<and>
   fst (fetch_weather flaky_env 0 ''hyderabad'' ''in'' empty_world) = Inl RedisConnectionError"
proof -
  have a: "fetch_weather offline_env 0 ''hyderabad'' ''in'' empty_world =
     (Inl RedisConnectionError, empty_world\<lparr>trace := [Redis_Get ''weather:hyderabad,in'']\<rparr>)"
    by (simp add: fw_defs offline_env_def empty_world_def cache_key_def)
  have b: "fst (fetch_weather flaky_env 0 ''hyderabad'' ''in'' empty_world) = Inl RedisConnectionError"
    by (simp add: fw_defs extract_sample truthy_def store_lookup_def flaky_env_def sample_env_def
      empty_world_def)
  show ?thesis
    by (simp add: a b weather_def hyderabad_parsed)
qed

subsection \<open>C8: every upstream failure looks the same\<close>

text \<open>
  C8 (as the code has it). For a well-formed request that reaches the upstream, the
  code sends one HTTP request and never a second one. Whatever status other than 200
  comes back, 4xx or 5xx, the route answers \<^verbatim>\<open>Could not fetch weather. Please check
  city name.\<close>; if \<^verbatim>\<open>requests.get\<close> itself raises, the exception is the route's
  result. In both cases the new external calls are the Redis GET and that one request.
\<close>

theorem upstream_failure_uniform:
  assumes input: "s \<noteq> []" "parse_location s = [city, country]"
    and reachable: "redis_reachable e (length (trace w))"
    and miss: "\<not> truthy (store_lookup (store w) now (cache_key city country))"
  shows "(\<forall>status body.
            http_answer e (Suc (length (trace w))) (url e) (query_params e city country) =
              Response status body \<and> status \<noteq> 200 \<longrightarrow>
            weather e now (Some s) w =
              (Inr (Text could_not_fetch),
               w\<lparr>trace := trace w @ [Redis_Get (cache_key city country),
                                       Http_Get (url e) (query_params e city country)]\<rparr>)) \<and>
         (http_answer e (Suc (length (trace w))) (url e) (query_params e city country) =
              Transport_Error \<longrightarrow>
            weather e now (Some s) w =
              (Inl RequestException,
               w\<lparr>trace := trace w @ [Redis_Get (cache_key city country),
                                       Http_Get (url e) (query_params e city country)]\<rparr>))"
  using assms by (simp add: fw_defs weather_def)

theorem upstream_failure_uniform_witness:
  "weather not_found_env 0 (Some ''Hyderabad,IN'') empty_world =
     (Inr (Text could_not_fetch), failed_world) \<and>
   weather unavailable_env 0 (Some ''Hyderabad,IN'') empty_world =
     (Inr (Text could_not_fetch), failed_world)"
proof -
  have input: "''Hyderabad,IN'' \<noteq> []" "parse_location ''Hyderabad,IN'' = [''hyderabad'', ''in'']"
    by (simp_all add: hyderabad_parsed)
  have miss: "\<not> truthy (store_lookup (store empty_world) 0 (cache_key ''hyderabad'' ''in''))"
    by (simp add: truthy_def store_lookup_def empty_world_def)
  have r1: "redis_reachable not_found_env (length (trace empty_world))"
    and r2: "redis_reachable unavailable_env (length (trace empty_world))"
    by (simp_all add: not_found_env_def unavailable_env_def sample_env_def)
  have a1: "http_answer not_found_env (Suc (length (trace empty_world))) (url not_found_env)
      (query_params not_found_env ''hyderabad'' ''in'') =
      Response 404 (Some (JObj [(''cod'', JStr ''404''), (''message'', JStr ''city not found'')]))
      \<and> (404::int) \<noteq> 200"
    by (simp add: not_found_env_def)
  have a2: "http_answer unavailable_env (Suc (length (trace empty_world))) (url unavailable_env)
      (query_params unavailable_env ''hyderabad'' ''in'') = Response 503 None \<and> (503::int) \<noteq> 200"
    by (simp add: unavailable_env_def)
  have w1: "empty_world\<lparr>trace := trace empty_world @ [Redis_Get (cache_key ''hyderabad'' ''in''),
      Http_Get (url not_found_env) (query_params not_found_env ''hyderabad'' ''in'')]\<rparr> = failed_world"
    and w2: "empty_world\<lparr>trace := trace empty_world @ [Redis_Get (cache_key ''hyderabad'' ''in''),
      Http_Get (url unavailable_env) (query_params unavailable_env ''hyderabad'' ''in'')]\<rparr> = failed_world"
    by (simp_all add: empty_world_def failed_world_def cache_key_def query_params_def
        not_found_env_def unavailable_env_def sample_env_def sample_request_def)
  from upstream_failure_uniform [OF input r1 miss] a1
    upstream_failure_uniform [OF input r2 miss] a2
  show ?thesis
    unfolding w1 w2 by blast
qed

text \<open>
  The claim as stated fails: a 503 is answered after a single HTTP request, with the
  message a 404 gets.
\<close>

theorem upstream_failure_counterexample:
  "weather unavailable_env 0 (Some ''Hyderabad,IN'') empty_world =
     (Inr (Text could_not_fetch), failed_world) \<and>
   length (filter (\<lambda>ev. case ev of Http_Get u p \<Rightarrow> True | _ \<Rightarrow> False) (trace failed_world)) = 1 \<and>
   fst (weather not_found_env 0 (Some ''Hyderabad,IN'') empty_world) =
   fst (weather unavailable_env 0 (Some ''Hyderabad,IN'') empty_world)"
proof -
  have a: "fetch_weather unavailable_env 0 ''hyderabad'' ''in'' empty_world = (Inr JNull, failed_world)"
    by (simp add: fw_defs truthy_def store_lookup_def unavailable_env_def sample_env_def
        empty_world_def failed_world_def cache_key_def query_params_def sample_request_def)
  have b: "fetch_weather not_found_env 0 ''hyderabad'' ''in'' empty_world = (Inr JNull, failed_world)"
    by (simp add: fw_defs truthy_def store_lookup_def not_found_env_def sample_env_def
        empty_world_def failed_world_def cache_key_def query_params_def sample_request_def)
  show ?thesis
    by (simp add: a b weather_def hyderabad_parsed failed_world_def sample_request_def)
qed

subsection \<open>C3: reading the payload\<close>

text \<open>
  C3. A 200 payload without the \<^verbatim>\<open>wind\<close> object makes \<^verbatim>\<open>fetch_weather\<close> raise
  \<^verbatim>\<open>KeyError\<close> at \<^verbatim>\<open>body['wind']['speed']\<close>; the route does not catch it, and nothing
  is stored. Only \<^verbatim>\<open>name\<close> is read with \<^verbatim>\<open>body.get\<close>: a payload without it gives
  \<^verbatim>\<open>None\<close> for the name, and a reading of zero stays a zero.
\<close>

theorem missing_field_raises:
  "extract_fields payload_without_wind = Inl (KeyError ''wind'') \<and>
   fetch_weather windless_env 0 ''hyderabad'' ''in'' empty_world =
     (Inl (KeyError ''wind''), failed_world) \<and>
   weather windless_env 0 (Some ''Hyderabad,IN'') empty_world =
     (Inl (KeyError ''wind''), failed_world) \<and>
   extract_fields payload_without_name =
     Inr (JObj [(''name'', JNull), (''temperature'', JNum 0),
                (''feels_like'', JNum 33), (''humidity'', JNum 65), (''pressure'', JNum 1009),
                (''wind'', JNum (9 / 2)), (''clouds'', JNum 40), (''timezone'', JNum 19800)])"
proof -
  have ex: "extract_fields payload_without_wind = Inl (KeyError ''wind'')"
    by (simp add: extract_fields_def index2_def bind_err_def payload_without_wind_def)
  have fw: "fetch_weather windless_env 0 ''hyderabad'' ''in'' empty_world =
     (Inl (KeyError ''wind''), failed_world)"
    by (simp add: fw_defs ex truthy_def store_lookup_def windless_env_def sample_env_def
        empty_world_def failed_world_def cache_key_def query_params_def sample_request_def)
  have nm: "extract_fields payload_without_name =
     Inr (JObj [(''name'', JNull), (''temperature'', JNum 0),
                (''feels_like'', JNum 33), (''humidity'', JNum 65), (''pressure'', JNum 1009),
                (''wind'', JNum (9 / 2)), (''clouds'', JNum 40), (''timezone'', JNum 19800)])"
    by (simp add: extract_fields_def index2_def bind_err_def payload_without_name_def)
  show ?thesis
    by (simp add: ex fw nm weather_def hyderabad_parsed)
qed

subsection \<open>C6: the cache key under case and whitespace variation\<close>

lemma is_space_lower_char: "is_space (lower_char c) = is_space c"
  by (auto simp: is_space_def lower_char_def Let_def)

lemma lower_char_comma: "lower_char c = comma \<longleftrightarrow> c = comma"
proof -
  have "of_char (lower_char c) = (44::nat) \<longleftrightarrow> of_char c = (44::nat)"
    by (auto simp: lower_char_def Let_def)
  moreover have "of_char comma = (44::nat)"
    by (simp add: comma_def)
  ultimately show ?thesis
    by (metis of_char_eq_iff)
qed

lemma comma_not_space: "\<not> is_space comma"
  by (simp add: is_space_def comma_def)

lemma comma_in_lower: "comma \<in> set (lower s) \<longleftrightarrow> comma \<in> set s"
proof -
  have "comma = lower_char c \<longleftrightarrow> c = comma" for c
    using lower_char_comma [of c] by auto
  then show ?thesis
    by (induction s) (auto simp: lower_def)
qed

lemma strip_padded:
  assumes "\<forall>c\<in>set a. is_space c" "\<forall>c\<in>set b. is_space c"
  shows "strip (a @ x @ b) = strip x"
proof (cases "\<forall>c\<in>set x. is_space c")
  case True
  with assms have "dropWhile is_space (a @ x @ b) = []" "dropWhile is_space x = []"
    by auto
  then show ?thesis by (simp only: strip_def)
next
  case False
  then obtain c where c: "c \<in> set x" "\<not> is_space c" by blast
  have "dropWhile is_space (a @ x @ b) = dropWhile is_space x @ b"
  proof -
    have "dropWhile is_space (a @ x @ b) = dropWhile is_space (x @ b)"
      by (rule dropWhile_append2) (use assms(1) in simp)
    also have "\<dots> = dropWhile is_space x @ b"
      using c by (rule dropWhile_append1 [where P = is_space])
    finally show ?thesis .
  qed
  moreover have "dropWhile is_space (rev b @ ys) = dropWhile is_space ys" for ys
    by (rule dropWhile_append2) (use assms(2) in simp)
  ultimately show ?thesis by (simp add: strip_def)
qed

lemma lower_strip: "lower (strip x) = strip (lower x)"
proof -
  have comp: "is_space \<circ> lower_char = is_space"
    by (auto simp: is_space_lower_char)
  show ?thesis
    by (simp add: strip_def lower_def dropWhile_map rev_map comp)
qed

lemma split_comma_at:
  assumes "comma \<notin> set x"
  shows "split_comma (x @ comma # y) = [x, y]"
proof -
  have "takeWhile (\<lambda>c. c \<noteq> comma) (x @ comma # y) = x"
    and "dropWhile (\<lambda>c. c \<noteq> comma) (x @ comma # y) = comma # y"
    using assms by (induction x) auto
  then show ?thesis by (simp add: split_comma_def)
qed

lemma request_key_at:
  assumes "comma \<notin> set x"
  shows "request_key (x @ comma # y) = Some (cache_key (lower (strip x)) (lower (strip y)))"
  using assms by (simp add: request_key_def parse_location_def split_comma_at)

lemma lower_char_capital:
  assumes "is_capital a" "(of_char b :: nat) = of_char a + 32"
  shows "lower_char a = b" "lower_char b = b"
proof -
  have "char_of (of_char a + 32 :: nat) = b"
    using assms(2) by (metis char_of_char)
  then show "lower_char a = b"
    using assms(1) by (auto simp: lower_char_def is_capital_def Let_def)
  show "lower_char b = b"
    using assms by (auto simp: lower_char_def is_capital_def Let_def)
qed

lemma case_pair_lower_char: "case_pair a b \<Longrightarrow> lower_char a = lower_char b"
  unfolding case_pair_def using lower_char_capital by metis

lemma differ_only_in_case_lower:
  "differ_only_in_case x y \<Longrightarrow> lower x = lower y"
  unfolding differ_only_in_case_def lower_def
  by (induction rule: list_all2_induct) (simp_all add: case_pair_lower_char)

text \<open>
  C6 (as the code has it). Two inputs get the same key when they differ only in letter
  case, in the sense of \<open>differ_only_in_case\<close> (code points below 256, letters with a
  capital and a small form there), and in whitespace before or after the city and the
  country component. Whitespace inside a component is kept, and so is a case variant
  that \<^verbatim>\<open>str.lower\<close> does not unify.
\<close>

theorem key_invariant_case_outer_space:
  assumes pad: "\<forall>c\<in>set (ws1 @ ws2 @ ws3 @ ws4). is_space c"
    and case_city: "differ_only_in_case city' city"
    and case_country: "differ_only_in_case country' country"
    and no_comma: "comma \<notin> set city"
  shows "request_key (ws1 @ city' @ ws2 @ comma # ws3 @ country' @ ws4) =
         request_key (city @ comma # country)"
proof -
  have same_city: "lower city' = lower city"
    and same_country: "lower country' = lower country"
    using case_city case_country by (simp_all add: differ_only_in_case_lower)
  have spaces: "\<forall>c\<in>set ws1. is_space c" "\<forall>c\<in>set ws2. is_space c"
    "\<forall>c\<in>set ws3. is_space c" "\<forall>c\<in>set ws4. is_space c"
    using pad by auto
  have "comma \<notin> set city'"
    using no_comma same_city comma_in_lower by metis
  moreover have "comma \<notin> set ws1" "comma \<notin> set ws2"
    using spaces comma_not_space by blast+
  ultimately have left: "comma \<notin> set (ws1 @ city' @ ws2)"
    by simp
  have "request_key ((ws1 @ city' @ ws2) @ comma # (ws3 @ country' @ ws4)) =
        Some (cache_key (lower (strip city')) (lower (strip country')))"
    using spaces by (simp only: request_key_at [OF left] strip_padded)
  also have "\<dots> = Some (cache_key (lower (strip city)) (lower (strip country)))"
    by (simp add: lower_strip same_city same_country)
  also have "\<dots> = request_key (city @ comma # country)"
    by (simp add: request_key_at [OF no_comma])
  finally show ?thesis by simp
qed

lemma case_samples:
  "differ_only_in_case ''Hyderabad'' ''hyderabad''" "differ_only_in_case ''IN'' ''in''"
  by code_simp+

theorem key_invariant_case_outer_space_witness:
  "request_key '' Hyderabad , IN '' = request_key ''hyderabad,in''"
proof -
  have pad: "\<forall>c\<in>set ('' '' @ '' '' @ '' '' @ '' ''). is_space c"
    by (simp add: is_space_def)
  have no_comma: "comma \<notin> set ''hyderabad''"
    by (simp add: comma_def)
  from key_invariant_case_outer_space [OF pad case_samples no_comma]
  show ?thesis by (simp add: comma_def)
qed

text \<open>
  The claim as stated fails twice. One space or two inside the city name give two keys.
  And GIESSEN and its small form with the sharp s (code point 223), which have the same
  capital form, give two keys: \<^verbatim>\<open>str.lower\<close> leaves the sharp s and does not turn SS
  into it.
\<close>

theorem key_internal_space_counterexample:
  "request_key ''new york,us'' \<noteq> request_key ''new  york,us'' \<and>
   request_key ''GIESSEN,DE'' \<noteq> request_key (''gie'' @ [CHR 0xDF] @ ''en,de'')"
  by code_simp

end
